theory Spec2Isabelle
  imports Main "HOL-Library.Word"
begin

section \<open>The standalone LeakSanitizer runtime (lsan.cpp)\<close>

text \<open>
  The theory embeds the three functions of \<^verbatim>\<open>lsan.cpp\<close> that carry behaviour:
  \<^verbatim>\<open>BufferedStackTrace::UnwindImpl\<close>, \<^verbatim>\<open>InitializeFlags\<close> and \<^verbatim>\<open>__lsan_init\<close>.
  The file-level globals become fields of one record that is passed through the
  functions; a failed \<^verbatim>\<open>CHECK\<close> becomes the left injection of a sum. Calls into the
  other modules of the runtime (allocator, interceptors, thread registry, ...) are kept
  as entries of a call log, in the order in which the code makes them.
\<close>

subsection \<open>Build configuration\<close>

text \<open>
  \<^verbatim>\<open>SANITIZER_EMSCRIPTEN\<close> and \<^verbatim>\<open>SANITIZER_MIPS\<close> are preprocessor constants of
  \<^verbatim>\<open>sanitizer_platform.h\<close>; the embedding takes them as parameters.
\<close>

record platform =
  SANITIZER_EMSCRIPTEN :: bool
  SANITIZER_MIPS :: bool

subsection \<open>Stack unwinding\<close>

type_synonym u32 = "32 word"
type_synonym tid_t = "64 word"

record 'u ThreadContext =
  stack_begin :: 'u
  stack_end :: 'u

text \<open>
  One call of \<^verbatim>\<open>Unwind(max_depth, pc, bp, context, stack_top, stack_bottom,
  request_fast_unwind)\<close>. The context is a nullable pointer.
\<close>

datatype ('u, 'c) unwind_call =
  Unwind_call (max_depth: u32) (pc: 'u) (bp: 'u) (ucontext: "'c option")
    (stack_top: 'u) (stack_bottom: 'u) (request_fast_unwind: bool)

text \<open>
  What \<^verbatim>\<open>UnwindImpl\<close> uses from \<^verbatim>\<open>sanitizer_stacktrace.h\<close> and \<^verbatim>\<open>lsan_thread.h\<close>:
  the static predicates \<^verbatim>\<open>StackTrace::WillUseFastUnwind\<close> and \<^verbatim>\<open>IsValidFrame\<close>, the
  lookup \<^verbatim>\<open>CurrentThreadContext()\<close> (a null pointer is \<open>None\<close>) and the unwinder
  \<^verbatim>\<open>Unwind\<close> itself, which fills the trace buffer. They are parameters.
\<close>

record ('u, 'c) unwind_env =
  WillUseFastUnwind :: "bool \<Rightarrow> bool"
  IsValidFrame :: "'u \<Rightarrow> 'u \<Rightarrow> 'u \<Rightarrow> bool"
  CurrentThreadContext :: "'u ThreadContext option"
  Unwind :: "('u, 'c) unwind_call \<Rightarrow> 'u list"

text \<open>
  The first half of \<^verbatim>\<open>UnwindImpl\<close>: both bounds start at 0 and are replaced by the
  bounds of the current thread when the fast unwinder will be used and the thread
  context is found. The pair is \<open>(stack_top, stack_bottom)\<close>.
\<close>

definition stack_bounds ::
  "('w::len word, 'c) unwind_env \<Rightarrow> bool \<Rightarrow> 'w word \<times> 'w word" where
  "stack_bounds E request_fast =
     (if WillUseFastUnwind E request_fast then
        (case CurrentThreadContext E of
           Some t \<Rightarrow> (stack_end t, stack_begin t)
         | None \<Rightarrow> (0, 0))
      else (0, 0))"

text \<open>
  The second half: which call of \<^verbatim>\<open>Unwind\<close> is made, if any.
\<close>

definition UnwindImpl_call ::
  "platform \<Rightarrow> ('w::len word, 'c) unwind_env \<Rightarrow> 'w word \<Rightarrow> 'w word \<Rightarrow> 'c option \<Rightarrow>
   bool \<Rightarrow> u32 \<Rightarrow> ('w word, 'c) unwind_call option" where
  "UnwindImpl_call P E pc' bp' context' request_fast max_depth' =
     (case stack_bounds E request_fast of (stack_top', stack_bottom') \<Rightarrow>
        if \<not> SANITIZER_MIPS P \<or> IsValidFrame E bp' stack_top' stack_bottom' then
          (if WillUseFastUnwind E request_fast then
             Some (Unwind_call max_depth' pc' bp' None stack_top' stack_bottom' True)
           else
             Some (Unwind_call max_depth' pc' 0 context' 0 0 False))
        else None)"

text \<open>
  \<^verbatim>\<open>UnwindImpl\<close> on a trace buffer: the buffer is what \<^verbatim>\<open>Unwind\<close> leaves in it, and is
  untouched when no call is made.
\<close>

definition UnwindImpl ::
  "platform \<Rightarrow> ('w::len word, 'c) unwind_env \<Rightarrow> 'w word list \<Rightarrow> 'w word \<Rightarrow> 'w word \<Rightarrow>
   'c option \<Rightarrow> bool \<Rightarrow> u32 \<Rightarrow> 'w word list" where
  "UnwindImpl P E trace_buffer pc' bp' context' request_fast max_depth' =
     (case UnwindImpl_call P E pc' bp' context' request_fast max_depth' of
        None \<Rightarrow> trace_buffer
      | Some c \<Rightarrow> Unwind E c)"

subsection \<open>Flags\<close>

text \<open>
  The fields of \<^verbatim>\<open>CommonFlags\<close> that \<^verbatim>\<open>lsan.cpp\<close> reads or writes. The integer flags
  are C \<^verbatim>\<open>int\<close>s on which the file does no arithmetic (it stores the constants 30 and
  23 and compares with 1); the string flags are nullable pointers. The field \<^verbatim>\<open>help\<close> is \<open>help_flag\<close>
  here.
\<close>

record CommonFlags =
  malloc_context_size :: int
  intercept_tls_get_addr :: bool
  detect_leaks :: bool
  exitcode :: int
  external_symbolizer_path :: "string option"
  leak_check_at_exit :: bool
  verbosity :: int
  help_flag :: bool
  log_path :: "string option"
  coverage :: bool
  coverage_dir :: "string option"
  fast_unwind_on_fatal :: bool

text \<open>
  \<^verbatim>\<open>RegisterCommonFlags\<close> gives the parser one handler per field, under the field's
  name. A handler is identified here by the field it points to.
\<close>

datatype common_flag =
  F_malloc_context_size | F_intercept_tls_get_addr | F_detect_leaks | F_exitcode
  | F_external_symbolizer_path | F_leak_check_at_exit | F_verbosity | F_help | F_log_path
  | F_coverage | F_coverage_dir | F_fast_unwind_on_fatal

datatype flag_value = Bool_value bool | Int_value int | Str_value "string option"

fun common_flag_name :: "common_flag \<Rightarrow> string" where
  "common_flag_name F_malloc_context_size = ''malloc_context_size''"
| "common_flag_name F_intercept_tls_get_addr = ''intercept_tls_get_addr''"
| "common_flag_name F_detect_leaks = ''detect_leaks''"
| "common_flag_name F_exitcode = ''exitcode''"
| "common_flag_name F_external_symbolizer_path = ''external_symbolizer_path''"
| "common_flag_name F_leak_check_at_exit = ''leak_check_at_exit''"
| "common_flag_name F_verbosity = ''verbosity''"
| "common_flag_name F_help = ''help''"
| "common_flag_name F_log_path = ''log_path''"
| "common_flag_name F_coverage = ''coverage''"
| "common_flag_name F_coverage_dir = ''coverage_dir''"
| "common_flag_name F_fast_unwind_on_fatal = ''fast_unwind_on_fatal''"

definition registered_common_flags :: "common_flag list" where
  "registered_common_flags =
     [F_malloc_context_size, F_intercept_tls_get_addr, F_detect_leaks, F_exitcode,
      F_external_symbolizer_path, F_leak_check_at_exit, F_verbosity, F_help, F_log_path,
      F_coverage, F_coverage_dir, F_fast_unwind_on_fatal]"

definition find_common_flag :: "string \<Rightarrow> common_flag option" where
  "find_common_flag n = List.find (\<lambda>f. common_flag_name f = n) registered_common_flags"

fun get_common_flag :: "common_flag \<Rightarrow> CommonFlags \<Rightarrow> flag_value" where
  "get_common_flag F_malloc_context_size cf = Int_value (malloc_context_size cf)"
| "get_common_flag F_intercept_tls_get_addr cf = Bool_value (intercept_tls_get_addr cf)"
| "get_common_flag F_detect_leaks cf = Bool_value (detect_leaks cf)"
| "get_common_flag F_exitcode cf = Int_value (exitcode cf)"
| "get_common_flag F_external_symbolizer_path cf = Str_value (external_symbolizer_path cf)"
| "get_common_flag F_leak_check_at_exit cf = Bool_value (leak_check_at_exit cf)"
| "get_common_flag F_verbosity cf = Int_value (verbosity cf)"
| "get_common_flag F_help cf = Bool_value (help_flag cf)"
| "get_common_flag F_log_path cf = Str_value (log_path cf)"
| "get_common_flag F_coverage cf = Bool_value (coverage cf)"
| "get_common_flag F_coverage_dir cf = Str_value (coverage_dir cf)"
| "get_common_flag F_fast_unwind_on_fatal cf = Bool_value (fast_unwind_on_fatal cf)"

text \<open>
  Storing a value through a handler. A value of another type than the field's leaves
  the flags as they are; the parser below never produces one.
\<close>

fun set_common_flag :: "common_flag \<Rightarrow> flag_value \<Rightarrow> CommonFlags \<Rightarrow> CommonFlags" where
  "set_common_flag F_malloc_context_size (Int_value n) cf = cf\<lparr>malloc_context_size := n\<rparr>"
| "set_common_flag F_intercept_tls_get_addr (Bool_value b) cf = cf\<lparr>intercept_tls_get_addr := b\<rparr>"
| "set_common_flag F_detect_leaks (Bool_value b) cf = cf\<lparr>detect_leaks := b\<rparr>"
| "set_common_flag F_exitcode (Int_value n) cf = cf\<lparr>exitcode := n\<rparr>"
| "set_common_flag F_external_symbolizer_path (Str_value p) cf = cf\<lparr>external_symbolizer_path := p\<rparr>"
| "set_common_flag F_leak_check_at_exit (Bool_value b) cf = cf\<lparr>leak_check_at_exit := b\<rparr>"
| "set_common_flag F_verbosity (Int_value n) cf = cf\<lparr>verbosity := n\<rparr>"
| "set_common_flag F_help (Bool_value b) cf = cf\<lparr>help_flag := b\<rparr>"
| "set_common_flag F_log_path (Str_value p) cf = cf\<lparr>log_path := p\<rparr>"
| "set_common_flag F_coverage (Bool_value b) cf = cf\<lparr>coverage := b\<rparr>"
| "set_common_flag F_coverage_dir (Str_value p) cf = cf\<lparr>coverage_dir := p\<rparr>"
| "set_common_flag F_fast_unwind_on_fatal (Bool_value b) cf = cf\<lparr>fast_unwind_on_fatal := b\<rparr>"
| "set_common_flag _ _ cf = cf"

subsection \<open>The option-string parser\<close>

text \<open>
  Modelled from the spec: \<^verbatim>\<open>FlagParser\<close> (\<^verbatim>\<open>sanitizer_flag_parser.h\<close>) is not among the
  sources at hand. The spec describes an options string as \<^verbatim>\<open>key=value\<close> pairs separated
  by a host-conventional delimiter (its example is \<^verbatim>\<open>a=1:b=0\<close>), each source parsed
  independently, later assignments overriding earlier ones for the keys they mention,
  unknown keys collected, and malformed input ignored without aborting. The delimiters
  taken here are the colon, the comma and white space. A token with no \<^verbatim>\<open>=\<close>, with an
  unknown key or with a value its flag cannot read is collected as unrecognized and has
  no other effect.
\<close>

definition is_separator :: "char \<Rightarrow> bool" where
  "is_separator c \<longleftrightarrow>
     c = CHR '':'' \<or> c = CHR '','' \<or> c = CHR '' '' \<or> c = CHR 0x0A \<or> c = CHR 0x09 \<or> c = CHR 0x0D"

fun tokens_from :: "string \<Rightarrow> string \<Rightarrow> string list" where
  "tokens_from cur [] = (if cur = [] then [] else [cur])"
| "tokens_from cur (c # cs) =
     (if is_separator c then (if cur = [] then tokens_from [] cs else cur # tokens_from [] cs)
      else tokens_from (cur @ [c]) cs)"

definition split_tokens :: "string \<Rightarrow> string list" where
  "split_tokens str = tokens_from [] str"

definition key_value :: "string \<Rightarrow> (string \<times> string) option" where
  "key_value t =
     (if CHR ''='' \<in> set t
      then Some (takeWhile (\<lambda>c. c \<noteq> CHR ''='') t, tl (dropWhile (\<lambda>c. c \<noteq> CHR ''='') t))
      else None)"

definition parse_bool :: "string \<Rightarrow> bool option" where
  "parse_bool v =
     (if v = ''0'' \<or> v = ''no'' \<or> v = ''false'' then Some False
      else if v = ''1'' \<or> v = ''yes'' \<or> v = ''true'' then Some True
      else None)"

definition digit_of :: "char \<Rightarrow> nat option" where
  "digit_of c =
     (if (48::nat) \<le> of_char c \<and> of_char c \<le> (57::nat) then Some (of_char c - 48) else None)"

fun digits_value :: "nat \<Rightarrow> string \<Rightarrow> nat option" where
  "digits_value acc [] = Some acc"
| "digits_value acc (c # cs) =
     (case digit_of c of None \<Rightarrow> None | Some d \<Rightarrow> digits_value (10 * acc + d) cs)"

definition parse_int :: "string \<Rightarrow> int option" where
  "parse_int v =
     (case v of
        [] \<Rightarrow> None
      | c # cs \<Rightarrow>
          if c = CHR ''-'' then
            (if cs = [] then None else map_option (\<lambda>n. - int n) (digits_value 0 cs))
          else map_option int (digits_value 0 v))"

fun parse_common_flag :: "common_flag \<Rightarrow> string \<Rightarrow> flag_value option" where
  "parse_common_flag F_malloc_context_size v = map_option Int_value (parse_int v)"
| "parse_common_flag F_intercept_tls_get_addr v = map_option Bool_value (parse_bool v)"
| "parse_common_flag F_detect_leaks v = map_option Bool_value (parse_bool v)"
| "parse_common_flag F_exitcode v = map_option Int_value (parse_int v)"
| "parse_common_flag F_external_symbolizer_path v = Some (Str_value (Some v))"
| "parse_common_flag F_leak_check_at_exit v = map_option Bool_value (parse_bool v)"
| "parse_common_flag F_verbosity v = map_option Int_value (parse_int v)"
| "parse_common_flag F_help v = map_option Bool_value (parse_bool v)"
| "parse_common_flag F_log_path v = Some (Str_value (Some v))"
| "parse_common_flag F_coverage v = map_option Bool_value (parse_bool v)"
| "parse_common_flag F_coverage_dir v = Some (Str_value (Some v))"
| "parse_common_flag F_fast_unwind_on_fatal v = map_option Bool_value (parse_bool v)"

subsection \<open>The process state and its surroundings\<close>

text \<open>
  What the code obtains from outside the file: the tables of default values
  (\<^verbatim>\<open>sanitizer_flags.inc\<close> for \<^verbatim>\<open>SetCommonFlagsDefaults\<close>, \<^verbatim>\<open>lsan_flags.inc\<close> for
  \<^verbatim>\<open>Flags::SetDefaults\<close> and \<^verbatim>\<open>RegisterLsanFlags\<close>, as name and default text), the
  environment, the result of \<^verbatim>\<open>MaybeCallLsanDefaultOptions\<close>, the string that the
  \<^verbatim>\<open>EM_ASM_INT\<close> block builds from \<^verbatim>\<open>Module['LSAN_OPTIONS']\<close>, the identifier that
  \<^verbatim>\<open>ThreadCreate\<close> returns and the result of \<^verbatim>\<open>GetTid\<close>. Nullable strings are options.
\<close>

record lsan_env =
  common_flag_defaults :: CommonFlags
  lsan_flag_defaults :: "(string \<times> string) list"
  GetEnv :: "string \<Rightarrow> string option"
  lsan_default_options :: "string option"
  Module_LSAN_OPTIONS :: "string option"
  ThreadCreate_result :: u32
  GetTid :: tid_t

text \<open>
  The calls into other modules, with their arguments. \<^verbatim>\<open>ThreadCreate\<close> takes the
  parent identifier, a user identifier of pointer width (0 at its only call) and the
  detached flag. The only function ever passed to \<^verbatim>\<open>Atexit\<close> is \<^verbatim>\<open>DoLeakCheck\<close>, the
  only handler passed to \<^verbatim>\<open>InstallDeadlySignalHandlers\<close> is \<^verbatim>\<open>LsanOnDeadlySignal\<close>.
\<close>

datatype call =
  CacheBinaryName
  | AvoidCVE_2016_2143
  | emscripten_builtin_free
  | ReportUnrecognizedFlags
  | PrintFlagDescriptions
  | sanitizer_set_report_path "string option"
  | InitCommonLsan
  | InitializeAllocator
  | ReplaceSystemMalloc
  | InitTlsSize
  | InitializeInterceptors
  | InitializeThreadRegistry
  | InstallDeadlySignalHandlers_LsanOnDeadlySignal
  | ThreadCreate u32 nat bool
  | ThreadStart u32 tid_t
  | SetCurrentThread u32
  | Atexit_DoLeakCheck
  | InitializeCoverage bool "string option"

text \<open>
  The globals: the two flags of \<^verbatim>\<open>lsan.cpp\<close>, the tool name, the common flags, the
  tool's own flags (by name, as text), the unrecognized option names, the switch
  \<^verbatim>\<open>StackTrace::snapshot_stack\<close>, the verbosity set by \<^verbatim>\<open>SetVerbosity\<close>, and the log of
  the calls made so far.
\<close>

record lsan_globals =
  lsan_inited :: bool
  lsan_init_is_running :: bool
  SanitizerToolName :: string
  common_flags :: CommonFlags
  flags :: "string \<Rightarrow> string option"
  unknown_flags :: "string list"
  snapshot_stack :: bool
  current_verbosity :: int
  calls :: "call list"

datatype error = CheckFailed string

definition do_call :: "call \<Rightarrow> lsan_globals \<Rightarrow> lsan_globals" where
  "do_call c s = s\<lparr>calls := calls s @ [c]\<rparr>"

text \<open>
  Modelled from the spec: \<^verbatim>\<open>FlagParser::ParseString\<close> is not among the sources at hand.
  The handlers of the tool's own flags are registered before those of the common flags,
  so a name is looked up among the former first. A null string is not parsed.
\<close>

definition is_lsan_flag :: "lsan_env \<Rightarrow> string \<Rightarrow> bool" where
  "is_lsan_flag e n \<longleftrightarrow> map_of (lsan_flag_defaults e) n \<noteq> None"

definition add_unknown :: "string \<Rightarrow> lsan_globals \<Rightarrow> lsan_globals" where
  "add_unknown n s = s\<lparr>unknown_flags := unknown_flags s @ [n]\<rparr>"

definition parse_flag :: "lsan_env \<Rightarrow> lsan_globals \<Rightarrow> string \<Rightarrow> lsan_globals" where
  "parse_flag e s t =
     (case key_value t of
        None \<Rightarrow> add_unknown t s
      | Some (n, v) \<Rightarrow>
          if is_lsan_flag e n then s\<lparr>flags := (flags s)(n \<mapsto> v)\<rparr>
          else
            (case find_common_flag n of
               None \<Rightarrow> add_unknown n s
             | Some f \<Rightarrow>
                 (case parse_common_flag f v of
                    None \<Rightarrow> add_unknown n s
                  | Some x \<Rightarrow> s\<lparr>common_flags := set_common_flag f x (common_flags s)\<rparr>)))"

definition ParseString :: "lsan_env \<Rightarrow> string option \<Rightarrow> lsan_globals \<Rightarrow> lsan_globals" where
  "ParseString e str s =
     (case str of None \<Rightarrow> s | Some text \<Rightarrow> foldl (parse_flag e) s (split_tokens text))"

subsection \<open>InitializeFlags\<close>

text \<open>
  Lines 62 to 79: the defaults of the common flags, the values the tool puts over them,
  and the defaults of the tool's own flags.
\<close>

definition set_flag_defaults :: "platform \<Rightarrow> lsan_env \<Rightarrow> lsan_globals \<Rightarrow> lsan_globals" where
  "set_flag_defaults P e s =
     (let s = s\<lparr>common_flags := common_flag_defaults e\<rparr>;
          cf = common_flags s;
          cf = (if \<not> SANITIZER_EMSCRIPTEN P
                then cf\<lparr>external_symbolizer_path := GetEnv e ''LSAN_SYMBOLIZER_PATH''\<rparr>
                else cf);
          cf = cf\<lparr>malloc_context_size := 30\<rparr>;
          cf = cf\<lparr>intercept_tls_get_addr := True\<rparr>;
          cf = cf\<lparr>detect_leaks := True\<rparr>;
          cf = cf\<lparr>exitcode := 23\<rparr>;
          s = s\<lparr>common_flags := cf\<rparr>
      in s\<lparr>flags := map_of (lsan_flag_defaults e)\<rparr>)"

text \<open>
  The second options string: the platform's channel on Emscripten, the environment
  variable elsewhere.
\<close>

definition options_source :: "platform \<Rightarrow> lsan_env \<Rightarrow> string option" where
  "options_source P e =
     (if SANITIZER_EMSCRIPTEN P then Module_LSAN_OPTIONS e else GetEnv e ''LSAN_OPTIONS'')"

text \<open>Lines 86 to 98: the two option strings, in this order.\<close>

definition parse_option_sources :: "platform \<Rightarrow> lsan_env \<Rightarrow> lsan_globals \<Rightarrow> lsan_globals" where
  "parse_option_sources P e s =
     (let s = ParseString e (lsan_default_options e) s;
          s = ParseString e (options_source P e) s
      in if SANITIZER_EMSCRIPTEN P then do_call emscripten_builtin_free s else s)"

text \<open>Lines 100 to 111.\<close>

definition finish_flags :: "platform \<Rightarrow> lsan_globals \<Rightarrow> lsan_globals" where
  "finish_flags P s =
     (let s = (if SANITIZER_EMSCRIPTEN P \<and> malloc_context_size (common_flags s) \<le> 1
               then s\<lparr>snapshot_stack := False\<rparr> else s);
          s = s\<lparr>current_verbosity := verbosity (common_flags s)\<rparr>;
          s = (if current_verbosity s \<noteq> 0 then do_call ReportUnrecognizedFlags s else s);
          s = (if help_flag (common_flags s) then do_call PrintFlagDescriptions s else s)
      in do_call (sanitizer_set_report_path (log_path (common_flags s))) s)"

definition InitializeFlags :: "platform \<Rightarrow> lsan_env \<Rightarrow> lsan_globals \<Rightarrow> lsan_globals" where
  "InitializeFlags P e s = finish_flags P (parse_option_sources P e (set_flag_defaults P e s))"

subsection \<open>The entry point\<close>

text \<open>
  \<^verbatim>\<open>CHECK\<close> and \<^verbatim>\<open>CHECK_EQ\<close> (\<^verbatim>\<open>sanitizer_internal_defs.h\<close>) do not return when the
  condition fails: the process dies. The run then ends with the error.
  Lines 129 to 143 come first.
\<close>

definition start_subsystems :: "platform \<Rightarrow> lsan_env \<Rightarrow> lsan_globals \<Rightarrow> lsan_globals" where
  "start_subsystems P e s =
     (let s = s\<lparr>lsan_init_is_running := True\<rparr>;
          s = s\<lparr>SanitizerToolName := ''LeakSanitizer''\<rparr>;
          s = do_call CacheBinaryName s;
          s = do_call AvoidCVE_2016_2143 s;
          s = InitializeFlags P e s;
          s = do_call InitCommonLsan s;
          s = do_call InitializeAllocator s;
          s = do_call ReplaceSystemMalloc s;
          s = do_call InitTlsSize s;
          s = do_call InitializeInterceptors s;
          s = do_call InitializeThreadRegistry s
      in if \<not> SANITIZER_EMSCRIPTEN P
         then do_call InstallDeadlySignalHandlers_LsanOnDeadlySignal s else s)"

text \<open>Lines 149 to 155.\<close>

definition finish_init :: "lsan_globals \<Rightarrow> lsan_globals" where
  "finish_init s =
     (let s = (if detect_leaks (common_flags s) \<and> leak_check_at_exit (common_flags s)
               then do_call Atexit_DoLeakCheck s else s);
          s = do_call (InitializeCoverage (coverage (common_flags s))
                 (coverage_dir (common_flags s))) s;
          s = s\<lparr>lsan_inited := True\<rparr>
      in s\<lparr>lsan_init_is_running := False\<rparr>)"

text \<open>
  \<^verbatim>\<open>__lsan_init\<close>: the two guards of lines 126 to 128, the steps above, and between them
  the bootstrap thread of lines 144 to 147.
\<close>

definition lsan_init :: "platform \<Rightarrow> lsan_env \<Rightarrow> lsan_globals \<Rightarrow> error + lsan_globals" where
  "lsan_init P e s =
     (if lsan_init_is_running s then Inl (CheckFailed ''!lsan_init_is_running'')
      else if lsan_inited s then Inr s
      else
        let s = start_subsystems P e s;
            s = do_call (ThreadCreate 0 0 True) s;
            tid = ThreadCreate_result e
        in if tid \<noteq> 0 then Inl (CheckFailed ''(tid) == (0)'')
           else
             let s = do_call (ThreadStart tid (GetTid e)) s;
                 s = do_call (SetCurrentThread tid) s
             in Inr (finish_init s))"

text \<open>Calling the entry point \<open>n\<close> times in a row; a failed check ends the process.\<close>

fun lsan_init_times :: "nat \<Rightarrow> platform \<Rightarrow> lsan_env \<Rightarrow> lsan_globals \<Rightarrow> error + lsan_globals" where
  "lsan_init_times 0 P e s = Inr s"
| "lsan_init_times (Suc n) P e s =
     (case lsan_init P e s of Inl err \<Rightarrow> Inl err | Inr s' \<Rightarrow> lsan_init_times n P e s')"

subsection \<open>Reading the resolved configuration\<close>

text \<open>
  The accepted assignment of one token, following the spec's words for an options
  string: a name registered by the tool or among the common flags, with a value the
  flag can read. The parser above is compared with this reading.
\<close>

definition token_assignment :: "lsan_env \<Rightarrow> string \<Rightarrow> (string \<times> flag_value) option" where
  "token_assignment e t =
     (case key_value t of
        None \<Rightarrow> None
      | Some (n, v) \<Rightarrow>
          if is_lsan_flag e n then Some (n, Str_value (Some v))
          else
            (case find_common_flag n of
               None \<Rightarrow> None
             | Some f \<Rightarrow> map_option (Pair n) (parse_common_flag f v)))"

definition assignments :: "lsan_env \<Rightarrow> string option \<Rightarrow> (string \<times> flag_value) list" where
  "assignments e str =
     (case str of
        None \<Rightarrow> []
      | Some text \<Rightarrow> List.map_filter (token_assignment e) (split_tokens text))"

text \<open>The value of the last assignment that a source makes to a key, if it makes one.\<close>

definition last_assignment :: "lsan_env \<Rightarrow> string \<Rightarrow> string option \<Rightarrow> flag_value option" where
  "last_assignment e k str = map_of (rev (assignments e str)) k"

text \<open>The names that a source assigns, whether or not the assignment is accepted.\<close>

definition mentioned_keys :: "string option \<Rightarrow> string list" where
  "mentioned_keys str =
     (case str of
        None \<Rightarrow> []
      | Some text \<Rightarrow> map fst (List.map_filter key_value (split_tokens text)))"

text \<open>
  The value of a flag by its name: the tool's own flags as text, the common flags by
  their fields; \<open>None\<close> for a name that is not registered.
\<close>

definition flag_view :: "lsan_env \<Rightarrow> lsan_globals \<Rightarrow> string \<Rightarrow> flag_value option" where
  "flag_view e s k =
     (if is_lsan_flag e k then Some (Str_value (flags s k))
      else map_option (\<lambda>f. get_common_flag f (common_flags s)) (find_common_flag k))"

subsection \<open>Sample configurations\<close>

text \<open>
  A process at load time (the globals of \<^verbatim>\<open>lsan.cpp\<close> are zero-initialised; stack
  snapshots are on), three platforms, and an environment.
\<close>

definition globals_at_load :: lsan_globals where
  "globals_at_load =
     \<lparr>lsan_inited = False, lsan_init_is_running = False, SanitizerToolName = [],
      common_flags =
        \<lparr>malloc_context_size = 0, intercept_tls_get_addr = False, detect_leaks = False,
         exitcode = 0, external_symbolizer_path = None, leak_check_at_exit = False,
         verbosity = 0, help_flag = False, log_path = None, coverage = False,
         coverage_dir = None, fast_unwind_on_fatal = False\<rparr>,
      flags = Map.empty, unknown_flags = [], snapshot_stack = True,
      current_verbosity = 0, calls = []\<rparr>"

definition emscripten :: platform where
  "emscripten = \<lparr>SANITIZER_EMSCRIPTEN = True, SANITIZER_MIPS = False\<rparr>"

definition linux_x86 :: platform where
  "linux_x86 = \<lparr>SANITIZER_EMSCRIPTEN = False, SANITIZER_MIPS = False\<rparr>"

definition mips_linux :: platform where
  "mips_linux = \<lparr>SANITIZER_EMSCRIPTEN = False, SANITIZER_MIPS = True\<rparr>"

definition sample_env :: lsan_env where
  "sample_env =
     \<lparr>common_flag_defaults =
        \<lparr>malloc_context_size = 1, intercept_tls_get_addr = False, detect_leaks = False,
         exitcode = 1, external_symbolizer_path = None, leak_check_at_exit = True,
         verbosity = 0, help_flag = False, log_path = Some ''stderr'', coverage = False,
         coverage_dir = Some ''.'', fast_unwind_on_fatal = False\<rparr>,
      lsan_flag_defaults = [(''report_objects'', ''false''), (''max_leaks'', ''0'')],
      GetEnv = (\<lambda>n. None),
      lsan_default_options = Some ''help=1:leak_check_at_exit=0'',
      Module_LSAN_OPTIONS = Some ''help=0:max_leaks=5'',
      ThreadCreate_result = 0,
      GetTid = 4242\<rparr>"

text \<open>The common flags that \<^verbatim>\<open>InitializeFlags\<close> leaves in a process.\<close>

definition resolved_flags :: "platform \<Rightarrow> lsan_env \<Rightarrow> CommonFlags" where
  "resolved_flags P e = common_flags (InitializeFlags P e globals_at_load)"

text \<open>
  The calls of one complete bring-up, in order, as they depend on the platform and on
  the resolved flags.
\<close>

definition bring_up_calls :: "platform \<Rightarrow> lsan_env \<Rightarrow> call list" where
  "bring_up_calls P e =
     [CacheBinaryName, AvoidCVE_2016_2143]
     @ (if SANITIZER_EMSCRIPTEN P then [emscripten_builtin_free] else [])
     @ (if verbosity (resolved_flags P e) \<noteq> 0 then [ReportUnrecognizedFlags] else [])
     @ (if help_flag (resolved_flags P e) then [PrintFlagDescriptions] else [])
     @ [sanitizer_set_report_path (log_path (resolved_flags P e)),
        InitCommonLsan, InitializeAllocator, ReplaceSystemMalloc, InitTlsSize,
        InitializeInterceptors, InitializeThreadRegistry]
     @ (if \<not> SANITIZER_EMSCRIPTEN P
        then [InstallDeadlySignalHandlers_LsanOnDeadlySignal] else [])
     @ [ThreadCreate 0 0 True, ThreadStart 0 (GetTid e), SetCurrentThread 0]
     @ (if detect_leaks (resolved_flags P e) \<and> leak_check_at_exit (resolved_flags P e)
        then [Atexit_DoLeakCheck] else [])
     @ [InitializeCoverage (coverage (resolved_flags P e))
          (coverage_dir (resolved_flags P e))]"

text \<open>The calls that create, start or select a thread of the registry.\<close>

fun is_thread_call :: "call \<Rightarrow> bool" where
  "is_thread_call (ThreadCreate _ _ _) = True"
| "is_thread_call (ThreadStart _ _) = True"
| "is_thread_call (SetCurrentThread _) = True"
| "is_thread_call _ = False"

text \<open>
  Modelled from the spec: \<^verbatim>\<open>IsValidFrame\<close> is declared in \<^verbatim>\<open>sanitizer_stacktrace.h\<close>,
  which is not among the sources at hand. The spec has the frame pointer validated
  against the resolved bounds; the sample unwinding environment below takes a frame
  pointer as valid when it lies strictly between the bottom and the top of the stack.
\<close>

definition frame_within_bounds :: "32 word \<Rightarrow> 32 word \<Rightarrow> 32 word \<Rightarrow> bool" where
  "frame_within_bounds frame stack_top' stack_bottom' \<longleftrightarrow>
     stack_bottom' < frame \<and> frame < stack_top'"

text \<open>
  A sample unwinding environment: both unwinders are available, so the request decides;
  the current thread has the stack from 0x1000 to 0x2000; the unwinder reports the
  program counter as the only frame.
\<close>

definition sample_unwind_env :: "(32 word, nat) unwind_env" where
  "sample_unwind_env =
     \<lparr>WillUseFastUnwind = (\<lambda>request_fast. request_fast),
      IsValidFrame = frame_within_bounds,
      CurrentThreadContext = Some \<lparr>stack_begin = 0x1000, stack_end = 0x2000\<rparr>,
      Unwind = (\<lambda>c. [pc c])\<rparr>"

text \<open>The names that the two option strings assign.\<close>

definition option_keys :: "platform \<Rightarrow> lsan_env \<Rightarrow> string set" where
  "option_keys P e =
     set (mentioned_keys (lsan_default_options e)) \<union> set (mentioned_keys (options_source P e))"

text \<open>
  A second sample validation, in machine arithmetic on 32-bit words: the frame pointer
  lies above the bottom of the stack and more than two 4-byte words below its top.
  Against the bounds 0 and 0 the subtraction wraps around, so every frame pointer from 1
  to 0xFFFFFFF7 passes and the frame pointer 0 does not.
\<close>

definition frame_below_margin :: "32 word \<Rightarrow> 32 word \<Rightarrow> 32 word \<Rightarrow> bool" where
  "frame_below_margin frame stack_top' stack_bottom' \<longleftrightarrow>
     stack_bottom' < frame \<and> frame < stack_top' - 8"

definition margin_unwind_env :: "(32 word, nat) unwind_env" where
  "margin_unwind_env = sample_unwind_env\<lparr>IsValidFrame := frame_below_margin\<rparr>"

text \<open>
  The value that the two option strings leave under a name when the value before
  parsing is \<open>d\<close>: the last accepted assignment of the second string, else the last
  accepted assignment of the default-options string, else \<open>d\<close>.
\<close>

definition last_accepted_or :: "platform \<Rightarrow> lsan_env \<Rightarrow> string \<Rightarrow> flag_value \<Rightarrow> flag_value" where
  "last_accepted_or P e k d =
     (case last_assignment e k (options_source P e) of
        Some x \<Rightarrow> x
      | None \<Rightarrow> (case last_assignment e k (lsan_default_options e) of Some x \<Rightarrow> x | None \<Rightarrow> d))"

section \<open>Properties\<close>

subsection \<open>What the parser keeps\<close>

lemma parse_flag_calls [simp]: "calls (parse_flag e s t) = calls s"
  by (simp add: parse_flag_def add_unknown_def split: option.splits prod.splits)

lemma parse_flag_inited [simp]: "lsan_inited (parse_flag e s t) = lsan_inited s"
  by (simp add: parse_flag_def add_unknown_def split: option.splits prod.splits)

lemma parse_flag_running [simp]:
  "lsan_init_is_running (parse_flag e s t) = lsan_init_is_running s"
  by (simp add: parse_flag_def add_unknown_def split: option.splits prod.splits)

lemma parse_flag_snapshot [simp]: "snapshot_stack (parse_flag e s t) = snapshot_stack s"
  by (simp add: parse_flag_def add_unknown_def split: option.splits prod.splits)

lemma foldl_parse_flag_fields:
  "calls (foldl (parse_flag e) s ts) = calls s \<and>
   lsan_inited (foldl (parse_flag e) s ts) = lsan_inited s \<and>
   lsan_init_is_running (foldl (parse_flag e) s ts) = lsan_init_is_running s \<and>
   snapshot_stack (foldl (parse_flag e) s ts) = snapshot_stack s"
  by (induction ts arbitrary: s) simp_all

lemma ParseString_fields [simp]:
  "calls (ParseString e str s) = calls s"
  "lsan_inited (ParseString e str s) = lsan_inited s"
  "lsan_init_is_running (ParseString e str s) = lsan_init_is_running s"
  "snapshot_stack (ParseString e str s) = snapshot_stack s"
  by (simp_all add: ParseString_def foldl_parse_flag_fields split: option.splits)

lemma set_flag_defaults_fields [simp]:
  "calls (set_flag_defaults P e s) = calls s"
  "lsan_inited (set_flag_defaults P e s) = lsan_inited s"
  "lsan_init_is_running (set_flag_defaults P e s) = lsan_init_is_running s"
  "snapshot_stack (set_flag_defaults P e s) = snapshot_stack s"
  by (simp_all add: set_flag_defaults_def Let_def)

lemma set_flag_defaults_tool_values:
  "malloc_context_size (common_flags (set_flag_defaults P e s)) = 30"
  "intercept_tls_get_addr (common_flags (set_flag_defaults P e s))"
  "detect_leaks (common_flags (set_flag_defaults P e s))"
  "exitcode (common_flags (set_flag_defaults P e s)) = 23"
  by (simp_all add: set_flag_defaults_def Let_def)

lemma parse_option_sources_fields [simp]:
  "lsan_inited (parse_option_sources P e s) = lsan_inited s"
  "lsan_init_is_running (parse_option_sources P e s) = lsan_init_is_running s"
  "snapshot_stack (parse_option_sources P e s) = snapshot_stack s"
  "calls (parse_option_sources P e s) =
     calls s @ (if SANITIZER_EMSCRIPTEN P then [emscripten_builtin_free] else [])"
  by (simp_all add: parse_option_sources_def Let_def do_call_def)

lemma finish_flags_fields [simp]:
  "lsan_inited (finish_flags P s) = lsan_inited s"
  "lsan_init_is_running (finish_flags P s) = lsan_init_is_running s"
  "common_flags (finish_flags P s) = common_flags s"
  by (simp_all add: finish_flags_def Let_def do_call_def)

lemma finish_flags_calls:
  "calls (finish_flags P s) =
     calls s
     @ (if verbosity (common_flags s) \<noteq> 0 then [ReportUnrecognizedFlags] else [])
     @ (if help_flag (common_flags s) then [PrintFlagDescriptions] else [])
     @ [sanitizer_set_report_path (log_path (common_flags s))]"
  by (simp add: finish_flags_def Let_def do_call_def)

lemma finish_flags_snapshot:
  "snapshot_stack (finish_flags P s) =
     (if SANITIZER_EMSCRIPTEN P \<and> malloc_context_size (common_flags s) \<le> 1 then False
      else snapshot_stack s)"
  by (auto simp: finish_flags_def Let_def do_call_def)

lemma InitializeFlags_fields [simp]:
  "lsan_inited (InitializeFlags P e s) = lsan_inited s"
  "lsan_init_is_running (InitializeFlags P e s) = lsan_init_is_running s"
  by (simp_all add: InitializeFlags_def)

lemma InitializeFlags_calls:
  "calls (InitializeFlags P e s) =
     calls s
     @ (if SANITIZER_EMSCRIPTEN P then [emscripten_builtin_free] else [])
     @ (if verbosity (common_flags (InitializeFlags P e s)) \<noteq> 0
        then [ReportUnrecognizedFlags] else [])
     @ (if help_flag (common_flags (InitializeFlags P e s)) then [PrintFlagDescriptions] else [])
     @ [sanitizer_set_report_path (log_path (common_flags (InitializeFlags P e s)))]"
  by (simp add: InitializeFlags_def finish_flags_calls)

text \<open>
  The common flags that \<^verbatim>\<open>InitializeFlags\<close> leaves do not depend on the state it starts
  from: every field is first set from the defaults.
\<close>

lemma foldl_parse_flag_common:
  "common_flags s = common_flags s' \<Longrightarrow>
   common_flags (foldl (parse_flag e) s ts) = common_flags (foldl (parse_flag e) s' ts)"
proof (induction ts arbitrary: s s')
  case Nil
  then show ?case by simp
next
  case (Cons t ts)
  have "common_flags (parse_flag e s t) = common_flags (parse_flag e s' t)"
    using Cons.prems
    by (simp add: parse_flag_def add_unknown_def split: option.splits prod.splits)
  then have "common_flags (foldl (parse_flag e) (parse_flag e s t) ts) =
             common_flags (foldl (parse_flag e) (parse_flag e s' t) ts)"
    by (rule Cons.IH)
  then show ?case by simp
qed

lemma ParseString_common:
  "common_flags s = common_flags s' \<Longrightarrow>
   common_flags (ParseString e str s) = common_flags (ParseString e str s')"
  by (cases str) (auto simp: ParseString_def intro: foldl_parse_flag_common)

lemma InitializeFlags_common: "common_flags (InitializeFlags P e s) = resolved_flags P e"
proof -
  have "common_flags (set_flag_defaults P e s) = common_flags (set_flag_defaults P e s')" for s'
    by (simp add: set_flag_defaults_def Let_def)
  then have "common_flags (parse_option_sources P e (set_flag_defaults P e s)) =
             common_flags (parse_option_sources P e (set_flag_defaults P e s'))" for s'
    by (auto simp: parse_option_sources_def Let_def do_call_def intro: ParseString_common)
  then show ?thesis by (simp add: InitializeFlags_def resolved_flags_def)
qed

subsection \<open>One run of the entry point\<close>

lemma start_subsystems_fields:
  "lsan_inited (start_subsystems P e s) = lsan_inited s"
  "lsan_init_is_running (start_subsystems P e s)"
  "common_flags (start_subsystems P e s) = resolved_flags P e"
  by (simp_all add: start_subsystems_def Let_def do_call_def InitializeFlags_common)

lemma start_subsystems_calls:
  "calls (start_subsystems P e s) =
     calls s
     @ [CacheBinaryName, AvoidCVE_2016_2143]
     @ (if SANITIZER_EMSCRIPTEN P then [emscripten_builtin_free] else [])
     @ (if verbosity (resolved_flags P e) \<noteq> 0 then [ReportUnrecognizedFlags] else [])
     @ (if help_flag (resolved_flags P e) then [PrintFlagDescriptions] else [])
     @ [sanitizer_set_report_path (log_path (resolved_flags P e)),
        InitCommonLsan, InitializeAllocator, ReplaceSystemMalloc, InitTlsSize,
        InitializeInterceptors, InitializeThreadRegistry]
     @ (if \<not> SANITIZER_EMSCRIPTEN P
        then [InstallDeadlySignalHandlers_LsanOnDeadlySignal] else [])"
  by (simp add: start_subsystems_def Let_def do_call_def InitializeFlags_calls
      InitializeFlags_common)

lemma finish_init_fields:
  "lsan_inited (finish_init s)"
  "\<not> lsan_init_is_running (finish_init s)"
  "common_flags (finish_init s) = common_flags s"
  by (simp_all add: finish_init_def Let_def do_call_def)

lemma finish_init_calls:
  "calls (finish_init s) =
     calls s
     @ (if detect_leaks (common_flags s) \<and> leak_check_at_exit (common_flags s)
        then [Atexit_DoLeakCheck] else [])
     @ [InitializeCoverage (coverage (common_flags s)) (coverage_dir (common_flags s))]"
  by (simp add: finish_init_def Let_def do_call_def)

lemma lsan_init_fresh:
  assumes "\<not> lsan_inited s" "\<not> lsan_init_is_running s" "ThreadCreate_result e = 0"
  shows "\<exists>s'. lsan_init P e s = Inr s' \<and> lsan_inited s' \<and> \<not> lsan_init_is_running s' \<and>
           common_flags s' = resolved_flags P e \<and>
           calls s' = calls s @ bring_up_calls P e"
proof -
  let ?a = "start_subsystems P e s"
  let ?b = "do_call (SetCurrentThread 0)
              (do_call (ThreadStart 0 (GetTid e)) (do_call (ThreadCreate 0 0 True) ?a))"
  have run: "lsan_init P e s = Inr (finish_init ?b)"
    using assms by (simp add: lsan_init_def Let_def)
  have cf: "common_flags ?b = resolved_flags P e"
    by (simp add: do_call_def start_subsystems_fields)
  have cs: "calls ?b =
      calls ?a @ [ThreadCreate 0 0 True, ThreadStart 0 (GetTid e), SetCurrentThread 0]"
    by (simp add: do_call_def)
  have "calls (finish_init ?b) = calls s @ bring_up_calls P e"
    unfolding finish_init_calls cf cs start_subsystems_calls bring_up_calls_def by simp
  with run cf show ?thesis
    by (simp add: finish_init_fields)
qed

lemma lsan_init_bad_tid:
  assumes "\<not> lsan_inited s" "\<not> lsan_init_is_running s" "ThreadCreate_result e \<noteq> 0"
  shows "lsan_init P e s = Inl (CheckFailed ''(tid) == (0)'')"
  using assms by (simp add: lsan_init_def Let_def)

lemma lsan_init_completed:
  "lsan_inited s \<Longrightarrow> \<not> lsan_init_is_running s \<Longrightarrow> lsan_init P e s = Inr s"
  by (simp add: lsan_init_def)

lemma lsan_init_times_completed:
  "lsan_inited s \<Longrightarrow> \<not> lsan_init_is_running s \<Longrightarrow> lsan_init_times n P e s = Inr s"
  by (induction n) (simp_all add: lsan_init_completed)

lemma lsan_init_times_fresh:
  assumes "\<not> lsan_inited s" "\<not> lsan_init_is_running s" "lsan_init P e s = Inr s'"
  shows "lsan_init_times (Suc n) P e s = Inr s'"
proof -
  have "ThreadCreate_result e = 0"
    using assms lsan_init_bad_tid [of s e P] by (cases "ThreadCreate_result e = 0") auto
  with assms(1,2) obtain s1 where s1: "lsan_init P e s = Inr s1" "lsan_inited s1"
      "\<not> lsan_init_is_running s1"
    using lsan_init_fresh [of s e P] by blast
  with assms(3) have "s1 = s'" by simp
  with s1 show ?thesis by (simp add: lsan_init_times_completed)
qed

lemma sample_fresh:
  "\<not> lsan_inited globals_at_load" "\<not> lsan_init_is_running globals_at_load"
  "calls globals_at_load = []" "snapshot_stack globals_at_load"
  by (simp_all add: globals_at_load_def)

subsection \<open>Initialization runs once\<close>

text \<open>
  C1. The entry point is idempotent. In a process that has not been initialized, when
  the thread registry hands out identifier 0, any number \<open>N \<ge> 1\<close> of calls in a row
  ends in the state that the first call leaves: \<^verbatim>\<open>lsan_inited\<close> is set,
  \<^verbatim>\<open>lsan_init_is_running\<close> is clear, and the call log has grown by exactly one
  bring-up sequence. A further call returns that state unchanged.
\<close>

theorem lsan_init_idempotent:
  assumes "\<not> lsan_inited s" "\<not> lsan_init_is_running s" "ThreadCreate_result e = 0" "1 \<le> N"
  shows "\<exists>s'. lsan_init P e s = Inr s' \<and> lsan_init_times N P e s = Inr s' \<and>
           lsan_inited s' \<and> \<not> lsan_init_is_running s' \<and>
           calls s' = calls s @ bring_up_calls P e \<and>
           lsan_init P e s' = Inr s'"
proof -
  obtain s' where s': "lsan_init P e s = Inr s'" "lsan_inited s'" "\<not> lsan_init_is_running s'"
      "calls s' = calls s @ bring_up_calls P e"
    using lsan_init_fresh [OF assms(1,2,3), of P] by blast
  obtain n where "N = Suc n" using assms(4) by (cases N) auto
  then have "lsan_init_times N P e s = Inr s'"
    using lsan_init_times_fresh [OF assms(1,2) s'(1)] by simp
  with s' show ?thesis by (simp add: lsan_init_completed)
qed

theorem lsan_init_idempotent_witness:
  "\<exists>s'. lsan_init emscripten sample_env globals_at_load = Inr s' \<and>
        lsan_init_times 3 emscripten sample_env globals_at_load = Inr s' \<and>
        lsan_inited s' \<and>
        calls s' =
          [CacheBinaryName, AvoidCVE_2016_2143, emscripten_builtin_free,
           sanitizer_set_report_path (Some ''stderr''), InitCommonLsan, InitializeAllocator,
           ReplaceSystemMalloc, InitTlsSize, InitializeInterceptors, InitializeThreadRegistry,
           ThreadCreate 0 0 True, ThreadStart 0 4242, SetCurrentThread 0,
           InitializeCoverage False (Some ''.'')] \<and>
        lsan_init emscripten sample_env s' = Inr s'"
proof -
  have bc: "bring_up_calls emscripten sample_env =
          [CacheBinaryName, AvoidCVE_2016_2143, emscripten_builtin_free,
           sanitizer_set_report_path (Some ''stderr''), InitCommonLsan, InitializeAllocator,
           ReplaceSystemMalloc, InitTlsSize, InitializeInterceptors, InitializeThreadRegistry,
           ThreadCreate 0 0 True, ThreadStart 0 4242, SetCurrentThread 0,
           InitializeCoverage False (Some ''.'')]"
    by code_simp
  have tid: "ThreadCreate_result sample_env = 0"
    by (simp add: sample_env_def)
  show ?thesis
    using lsan_init_idempotent [of globals_at_load sample_env 3 emscripten] sample_fresh tid bc
    by auto
qed

text \<open>
  C2. A call of the entry point that finds \<^verbatim>\<open>lsan_init_is_running\<close> set fails its first
  check: the process dies, and no state of a second bring-up is produced.
\<close>

theorem lsan_init_reentrant_aborts:
  "lsan_init_is_running s \<Longrightarrow> lsan_init P e s = Inl (CheckFailed ''!lsan_init_is_running'')"
  by (simp add: lsan_init_def)

text \<open>
  The state in which the bring-up reaches the thread registry has the flag set; a call
  of the entry point from there dies.
\<close>

theorem lsan_init_reentrant_aborts_witness:
  "lsan_init_is_running (start_subsystems emscripten sample_env globals_at_load) \<and>
   lsan_init emscripten sample_env (start_subsystems emscripten sample_env globals_at_load) =
     Inl (CheckFailed ''!lsan_init_is_running'')"
  using lsan_init_reentrant_aborts
    [of "start_subsystems emscripten sample_env globals_at_load" emscripten sample_env]
  by (simp add: start_subsystems_fields)

subsection \<open>The exit-time leak check\<close>

text \<open>
  C5. After \<open>N \<ge> 1\<close> calls of the entry point in a process that had not been
  initialized, the flags are the resolved ones, and \<^verbatim>\<open>Atexit(DoLeakCheck)\<close> has been
  called once if \<^verbatim>\<open>detect_leaks\<close> and \<^verbatim>\<open>leak_check_at_exit\<close> are both set, and not at all
  otherwise.
\<close>

theorem atexit_registered_once:
  assumes "\<not> lsan_inited s" "\<not> lsan_init_is_running s" "1 \<le> N"
    "lsan_init_times N P e s = Inr s'"
  shows "common_flags s' = resolved_flags P e \<and>
         count_list (calls s') Atexit_DoLeakCheck =
           count_list (calls s) Atexit_DoLeakCheck +
           (if detect_leaks (common_flags s') \<and> leak_check_at_exit (common_flags s')
            then 1 else 0)"
proof -
  obtain n where N: "N = Suc n" using assms(3) by (cases N) auto
  have tid: "ThreadCreate_result e = 0"
  proof (rule ccontr)
    assume "ThreadCreate_result e \<noteq> 0"
    then have "lsan_init P e s = Inl (CheckFailed ''(tid) == (0)'')"
      using assms(1,2) by (rule lsan_init_bad_tid [rotated 2])
    with assms(4) N show False by simp
  qed
  obtain s1 where s1: "lsan_init P e s = Inr s1" "common_flags s1 = resolved_flags P e"
      "calls s1 = calls s @ bring_up_calls P e"
    using lsan_init_fresh [OF assms(1,2) tid, of P] by blast
  have "lsan_init_times N P e s = Inr s1"
    using lsan_init_times_fresh [OF assms(1,2) s1(1)] N by simp
  with assms(4) have "s' = s1" by simp
  moreover have "count_list (bring_up_calls P e) Atexit_DoLeakCheck =
      (if detect_leaks (resolved_flags P e) \<and> leak_check_at_exit (resolved_flags P e)
       then 1 else 0)"
    by (simp add: bring_up_calls_def)
  ultimately show ?thesis using s1 by simp
qed

theorem atexit_registered_once_witness:
  "\<exists>s'. lsan_init_times 2 emscripten (sample_env\<lparr>lsan_default_options := None\<rparr>)
          globals_at_load = Inr s' \<and>
        detect_leaks (common_flags s') \<and> leak_check_at_exit (common_flags s') \<and>
        count_list (calls s') Atexit_DoLeakCheck = 1"
proof -
  let ?e = "sample_env\<lparr>lsan_default_options := None\<rparr>"
  have tid: "ThreadCreate_result ?e = 0"
    by (simp add: sample_env_def)
  obtain s' where s': "lsan_init emscripten ?e globals_at_load = Inr s'"
    using lsan_init_fresh [OF sample_fresh(1,2) tid, of emscripten] by blast
  then have run: "lsan_init_times 2 emscripten ?e globals_at_load = Inr s'"
    using lsan_init_times_fresh [OF sample_fresh(1,2), of emscripten ?e s' 1]
    by (simp add: numeral_2_eq_2)
  have rf: "detect_leaks (resolved_flags emscripten ?e)"
    "leak_check_at_exit (resolved_flags emscripten ?e)"
    by code_simp+
  show ?thesis
    using atexit_registered_once [OF sample_fresh(1,2) _ run] run rf sample_fresh(3) by auto
qed

subsection \<open>The bootstrap thread\<close>

text \<open>
  C6. In a process that has not been initialized: if \<^verbatim>\<open>ThreadCreate\<close> returns an
  identifier other than 0, the entry point dies on its \<^verbatim>\<open>CHECK_EQ\<close>; and whenever the
  entry point returns, the identifier was 0 and the calls it made to the thread registry
  are \<^verbatim>\<open>ThreadCreate(0, 0, true)\<close>, \<^verbatim>\<open>ThreadStart(0, GetTid())\<close> and
  \<^verbatim>\<open>SetCurrentThread(0)\<close>, in this order.
\<close>

theorem bootstrap_thread_zero:
  assumes "\<not> lsan_inited s" "\<not> lsan_init_is_running s"
  shows "(ThreadCreate_result e \<noteq> 0 \<longrightarrow> lsan_init P e s = Inl (CheckFailed ''(tid) == (0)'')) \<and>
         (\<forall>s'. lsan_init P e s = Inr s' \<longrightarrow>
            ThreadCreate_result e = 0 \<and>
            filter is_thread_call (drop (length (calls s)) (calls s')) =
              [ThreadCreate 0 0 True, ThreadStart 0 (GetTid e), SetCurrentThread 0])"
proof (intro conjI allI impI)
  assume "ThreadCreate_result e \<noteq> 0"
  with assms show "lsan_init P e s = Inl (CheckFailed ''(tid) == (0)'')"
    by (rule lsan_init_bad_tid)
next
  fix s' assume run: "lsan_init P e s = Inr s'"
  show tid: "ThreadCreate_result e = 0"
    using run lsan_init_bad_tid [OF assms, of e P] by (cases "ThreadCreate_result e = 0") auto
  obtain s1 where s1: "lsan_init P e s = Inr s1" "calls s1 = calls s @ bring_up_calls P e"
    using lsan_init_fresh [OF assms tid, of P] by blast
  with run have "calls s' = calls s @ bring_up_calls P e" by simp
  then show "filter is_thread_call (drop (length (calls s)) (calls s')) =
      [ThreadCreate 0 0 True, ThreadStart 0 (GetTid e), SetCurrentThread 0]"
    by (simp add: bring_up_calls_def)
qed

theorem bootstrap_thread_zero_witness:
  "lsan_init emscripten (sample_env\<lparr>ThreadCreate_result := 1\<rparr>) globals_at_load =
     Inl (CheckFailed ''(tid) == (0)'') \<and>
   (\<exists>s'. lsan_init emscripten sample_env globals_at_load = Inr s' \<and>
      filter is_thread_call (calls s') =
        [ThreadCreate 0 0 True, ThreadStart 0 4242, SetCurrentThread 0])"
proof -
  have h: "ThreadCreate_result sample_env = 0" "GetTid sample_env = 4242"
    "ThreadCreate_result (sample_env\<lparr>ThreadCreate_result := 1\<rparr>) \<noteq> 0"
    by (simp_all add: sample_env_def)
  obtain s' where s': "lsan_init emscripten sample_env globals_at_load = Inr s'"
    using lsan_init_fresh [OF sample_fresh(1,2) h(1), of emscripten] by blast
  show ?thesis
    using bootstrap_thread_zero [OF sample_fresh(1,2),
        of "sample_env\<lparr>ThreadCreate_result := 1\<rparr>" emscripten]
      bootstrap_thread_zero [OF sample_fresh(1,2), of sample_env emscripten]
      s' h sample_fresh(3)
    by auto
qed

subsection \<open>Stack snapshots on Emscripten\<close>

text \<open>
  C10. On Emscripten, \<^verbatim>\<open>InitializeFlags\<close> switches \<^verbatim>\<open>StackTrace::snapshot_stack\<close> off when
  the resolved \<^verbatim>\<open>malloc_context_size\<close>, read after both option strings have been parsed,
  is at most 1, and leaves the switch as it was for any larger depth.
\<close>

theorem snapshot_stack_follows_depth:
  assumes "SANITIZER_EMSCRIPTEN P"
  shows "common_flags (InitializeFlags P e s) = resolved_flags P e \<and>
         snapshot_stack (InitializeFlags P e s) =
           (if malloc_context_size (resolved_flags P e) \<le> 1 then False else snapshot_stack s)"
proof -
  have "snapshot_stack (InitializeFlags P e s) =
      (if malloc_context_size (common_flags (InitializeFlags P e s)) \<le> 1 then False
       else snapshot_stack s)"
    using assms by (simp add: InitializeFlags_def finish_flags_snapshot)
  then show ?thesis by (simp add: InitializeFlags_common)
qed

theorem snapshot_stack_follows_depth_witness:
  "SANITIZER_EMSCRIPTEN emscripten \<and>
   \<not> snapshot_stack (InitializeFlags emscripten
       (sample_env\<lparr>Module_LSAN_OPTIONS := Some ''malloc_context_size=1''\<rparr>) globals_at_load) \<and>
   snapshot_stack (InitializeFlags emscripten sample_env globals_at_load)"
proof -
  let ?e = "sample_env\<lparr>Module_LSAN_OPTIONS := Some ''malloc_context_size=1''\<rparr>"
  have d: "malloc_context_size (resolved_flags emscripten ?e) = 1"
    "malloc_context_size (resolved_flags emscripten sample_env) = 30"
    by code_simp+
  have h: "SANITIZER_EMSCRIPTEN emscripten"
    by (simp add: emscripten_def)
  show ?thesis
    using snapshot_stack_follows_depth [OF h, of ?e globals_at_load]
      snapshot_stack_follows_depth [OF h, of sample_env globals_at_load] d h sample_fresh(4)
    by simp
qed

subsection \<open>The unwind dispatcher\<close>

text \<open>
  C7. On a platform that validates frame pointers (\<^verbatim>\<open>SANITIZER_MIPS\<close>), for a request
  that will use the fast unwinder in a thread whose context is found: when
  \<^verbatim>\<open>IsValidFrame\<close> rejects the frame pointer against the bounds recorded for that thread,
  no call of \<^verbatim>\<open>Unwind\<close> is made, and an empty trace buffer stays empty.
\<close>

theorem invalid_frame_no_unwind:
  assumes "SANITIZER_MIPS P" "WillUseFastUnwind E request_fast"
    "CurrentThreadContext E = Some t"
    "\<not> IsValidFrame E bp' (stack_end t) (stack_begin t)"
  shows "UnwindImpl_call P E pc' bp' context' request_fast max_depth' = None \<and>
         UnwindImpl P E [] pc' bp' context' request_fast max_depth' = []"
  using assms by (simp add: UnwindImpl_def UnwindImpl_call_def stack_bounds_def)

theorem invalid_frame_no_unwind_witness:
  "SANITIZER_MIPS mips_linux \<and> WillUseFastUnwind sample_unwind_env True \<and>
   UnwindImpl_call mips_linux sample_unwind_env 0x400 0x2004 (Some 7) True 8 = None \<and>
   UnwindImpl mips_linux sample_unwind_env [] 0x400 0x2004 (Some 7) True 8 = []"
  using invalid_frame_no_unwind [of mips_linux sample_unwind_env True
      "\<lparr>stack_begin = 0x1000, stack_end = 0x2000\<rparr>" "0x2004" "0x400" "Some 7" 8]
  by (simp add: mips_linux_def sample_unwind_env_def frame_within_bounds_def)

text \<open>
  C8, as the code has it. When the fast unwinder will be used and the context of the
  current thread is not found, the dispatcher does not turn to the execution context:
  it still asks for the fast unwind from the given frame pointer, with both stack
  bounds 0 and a null context. On a platform that validates frame pointers this happens
  only if the frame pointer passes the validation against the bounds 0 and 0; otherwise
  no unwind is made.
\<close>

theorem unresolved_thread_fast_unwind:
  assumes "WillUseFastUnwind E request_fast" "CurrentThreadContext E = None"
  shows "UnwindImpl_call P E pc' bp' context' request_fast max_depth' =
           (if \<not> SANITIZER_MIPS P \<or> IsValidFrame E bp' 0 0
            then Some (Unwind_call max_depth' pc' bp' None 0 0 True) else None)"
  using assms by (simp add: UnwindImpl_call_def stack_bounds_def)

theorem unresolved_thread_fast_unwind_witness:
  "WillUseFastUnwind (sample_unwind_env\<lparr>CurrentThreadContext := None\<rparr>) True \<and>
   UnwindImpl_call linux_x86 (sample_unwind_env\<lparr>CurrentThreadContext := None\<rparr>)
     0x400 0x1800 (Some 7) True 8 = Some (Unwind_call 8 0x400 0x1800 None 0 0 True) \<and>
   UnwindImpl_call mips_linux (sample_unwind_env\<lparr>CurrentThreadContext := None\<rparr>)
     0x400 0x1800 (Some 7) True 8 = None"
  using unresolved_thread_fast_unwind
      [of "sample_unwind_env\<lparr>CurrentThreadContext := None\<rparr>" True linux_x86
        "0x400" "0x1800" "Some 7" 8]
    unresolved_thread_fast_unwind
      [of "sample_unwind_env\<lparr>CurrentThreadContext := None\<rparr>" True mips_linux
        "0x400" "0x1800" "Some 7" 8]
  by (simp add: linux_x86_def mips_linux_def sample_unwind_env_def frame_within_bounds_def)

text \<open>
  C8 as stated fails: with the fast unwinder requested and no thread context, the call
  made is the fast one, not the context-based call \<^verbatim>\<open>Unwind(8, pc, 0, context, 0, 0,
  false)\<close>.
\<close>

theorem unresolved_thread_counterexample:
  "UnwindImpl_call linux_x86 (sample_unwind_env\<lparr>CurrentThreadContext := None\<rparr>)
     0x400 0x1800 (Some 7) True 8 = Some (Unwind_call 8 0x400 0x1800 None 0 0 True) \<and>
   UnwindImpl_call linux_x86 (sample_unwind_env\<lparr>CurrentThreadContext := None\<rparr>)
     0x400 0x1800 (Some 7) True 8 \<noteq> Some (Unwind_call 8 0x400 0 (Some 7) 0 0 False)"
  by (simp add: UnwindImpl_call_def stack_bounds_def linux_x86_def sample_unwind_env_def)

text \<open>
  C9, as the code has it. When the fast unwinder will not be used, the dispatcher makes
  the context-based call, in which the frame pointer and both bounds are 0, exactly
  when the platform does not validate frame pointers or the frame pointer passes the
  validation against the bounds 0 and 0. In that case the trace is the one the
  context-based unwind gives, and a second request that differs in the frame pointer
  (also passing, where validated) and in the thread context leaves the same trace. On a
  platform that validates frame pointers, a frame pointer that fails the validation
  against the bounds 0 and 0 makes no call of \<^verbatim>\<open>Unwind\<close>, and the trace buffer stays
  as it was.
\<close>

theorem context_unwind_ignores_frame_pointer:
  assumes "\<not> WillUseFastUnwind E request_fast"
  shows "UnwindImpl_call P E pc' bp' context' request_fast max_depth' =
           (if \<not> SANITIZER_MIPS P \<or> IsValidFrame E bp' 0 0
            then Some (Unwind_call max_depth' pc' 0 context' 0 0 False) else None) \<and>
         (\<not> SANITIZER_MIPS P \<or> (IsValidFrame E bp' 0 0 \<and> IsValidFrame E bp'' 0 0) \<longrightarrow>
            UnwindImpl P E buf pc' bp' context' request_fast max_depth' =
              Unwind E (Unwind_call max_depth' pc' 0 context' 0 0 False) \<and>
            UnwindImpl P (E\<lparr>CurrentThreadContext := t'\<rparr>) buf pc' bp'' context' request_fast
                max_depth' =
              UnwindImpl P E buf pc' bp' context' request_fast max_depth') \<and>
         (SANITIZER_MIPS P \<and> \<not> IsValidFrame E bp' 0 0 \<longrightarrow>
            UnwindImpl_call P E pc' bp' context' request_fast max_depth' = None \<and>
            UnwindImpl P E buf pc' bp' context' request_fast max_depth' = buf)"
  using assms by (auto simp: UnwindImpl_def UnwindImpl_call_def stack_bounds_def)

theorem context_unwind_ignores_frame_pointer_witness:
  "\<not> WillUseFastUnwind sample_unwind_env False \<and>
   UnwindImpl_call linux_x86 sample_unwind_env 0x400 0x1800 (Some 7) False 8 =
     Some (Unwind_call 8 0x400 0 (Some 7) 0 0 False) \<and>
   UnwindImpl linux_x86 (sample_unwind_env\<lparr>CurrentThreadContext := None\<rparr>) [] 0x400 0
       (Some 7) False 8 =
     UnwindImpl linux_x86 sample_unwind_env [] 0x400 0x1800 (Some 7) False 8 \<and>
   IsValidFrame margin_unwind_env 0x1800 0 0 \<and> IsValidFrame margin_unwind_env 0x1900 0 0 \<and>
   UnwindImpl_call mips_linux margin_unwind_env 0x400 0x1800 (Some 7) False 8 =
     Some (Unwind_call 8 0x400 0 (Some 7) 0 0 False) \<and>
   UnwindImpl mips_linux (margin_unwind_env\<lparr>CurrentThreadContext := None\<rparr>) [] 0x400 0x1900
       (Some 7) False 8 =
     UnwindImpl mips_linux margin_unwind_env [] 0x400 0x1800 (Some 7) False 8 \<and>
   UnwindImpl_call mips_linux margin_unwind_env 0x400 0 (Some 7) False 8 = None \<and>
   UnwindImpl mips_linux margin_unwind_env [0x99] 0x400 0 (Some 7) False 8 = [0x99] \<and>
   UnwindImpl mips_linux sample_unwind_env [0x99] 0x400 0x1800 (Some 7) False 8 = [0x99]"
proof -
  have v: "IsValidFrame margin_unwind_env 0x1800 0 0" "IsValidFrame margin_unwind_env 0x1900 0 0"
    "\<not> IsValidFrame margin_unwind_env 0 0 0" "\<not> IsValidFrame sample_unwind_env 0x1800 0 0"
    by (simp_all add: margin_unwind_env_def sample_unwind_env_def frame_below_margin_def
        frame_within_bounds_def)
  have p: "\<not> SANITIZER_MIPS linux_x86" "SANITIZER_MIPS mips_linux"
    "\<not> WillUseFastUnwind sample_unwind_env False" "\<not> WillUseFastUnwind margin_unwind_env False"
    by (simp_all add: linux_x86_def mips_linux_def margin_unwind_env_def sample_unwind_env_def)
  show ?thesis
    using context_unwind_ignores_frame_pointer
        [where E = sample_unwind_env and request_fast = False and P = linux_x86
           and bp' = "0x1800" and bp'' = 0 and pc' = "0x400" and context' = "Some 7"
           and max_depth' = 8 and t' = None and buf = "[]"]
      context_unwind_ignores_frame_pointer
        [where E = margin_unwind_env and request_fast = False and P = mips_linux
           and bp' = "0x1800" and bp'' = "0x1900" and pc' = "0x400" and context' = "Some 7"
           and max_depth' = 8 and t' = None and buf = "[]"]
      context_unwind_ignores_frame_pointer
        [where E = margin_unwind_env and request_fast = False and P = mips_linux
           and bp' = 0 and pc' = "0x400" and context' = "Some 7"
           and max_depth' = 8 and buf = "[0x99]"]
      context_unwind_ignores_frame_pointer
        [where E = sample_unwind_env and request_fast = False and P = mips_linux
           and bp' = "0x1800" and pc' = "0x400" and context' = "Some 7"
           and max_depth' = 8 and buf = "[0x99]"]
    by (simp add: v p)
qed

text \<open>
  C9 as stated fails where frame pointers are validated: a request for which the fast
  unwinder is not selected, with frame pointer 0, makes no call of \<^verbatim>\<open>Unwind\<close> at all,
  while the context-based unwind of the same request has a frame.
\<close>

theorem context_unwind_counterexample:
  "UnwindImpl_call mips_linux sample_unwind_env 0x400 0 (Some 7) False 8 = None \<and>
   UnwindImpl mips_linux sample_unwind_env [] 0x400 0 (Some 7) False 8 = [] \<and>
   Unwind sample_unwind_env (Unwind_call 8 0x400 0 (Some 7) 0 0 False) = [0x400]"
  by (simp add: UnwindImpl_def UnwindImpl_call_def stack_bounds_def mips_linux_def
      sample_unwind_env_def frame_within_bounds_def)

subsection \<open>Resolving the flags\<close>

lemma get_set_same:
  "parse_common_flag f v = Some x \<Longrightarrow> get_common_flag f (set_common_flag f x cf) = x"
  by (cases f) auto

lemma get_set_other:
  "f \<noteq> g \<Longrightarrow> get_common_flag g (set_common_flag f x cf) = get_common_flag g cf"
  by (cases f; cases x; cases g) simp_all

lemma find_common_flag_name:
  "find_common_flag n = Some f \<Longrightarrow> common_flag_name f = n"
  unfolding find_common_flag_def by (auto simp: find_Some_iff)

text \<open>One token changes the value seen under the name it assigns, and no other.\<close>

lemma flag_view_parse_flag:
  "flag_view e (parse_flag e s t) k =
     (case token_assignment e t of
        None \<Rightarrow> flag_view e s k
      | Some (n, x) \<Rightarrow> if n = k then Some x else flag_view e s k)"
proof (cases "key_value t")
  case None
  then show ?thesis
    by (simp add: parse_flag_def token_assignment_def flag_view_def add_unknown_def)
next
  case (Some nv)
  obtain n v where nv: "nv = (n, v)" by (cases nv)
  show ?thesis
  proof (cases "is_lsan_flag e n")
    case True
    with Some nv show ?thesis
      by (auto simp: parse_flag_def token_assignment_def flag_view_def)
  next
    case lsan: False
    show ?thesis
    proof (cases "find_common_flag n")
      case None
      with Some nv lsan show ?thesis
        by (simp add: parse_flag_def token_assignment_def flag_view_def add_unknown_def)
    next
      case f: (Some f)
      show ?thesis
      proof (cases "parse_common_flag f v")
        case None
        with Some nv lsan f show ?thesis
          by (simp add: parse_flag_def token_assignment_def flag_view_def add_unknown_def)
      next
        case x: (Some x)
        have name: "common_flag_name f = n" using f by (rule find_common_flag_name)
        have "flag_view e (s\<lparr>common_flags := set_common_flag f x (common_flags s)\<rparr>) k =
              (if n = k then Some x else flag_view e s k)"
        proof (cases "n = k")
          case True
          with lsan f x show ?thesis
            by (simp add: flag_view_def get_set_same)
        next
          case False
          show ?thesis
          proof (cases "find_common_flag k")
            case None
            with False show ?thesis by (simp add: flag_view_def)
          next
            case (Some g)
            have "common_flag_name g = k" using Some by (rule find_common_flag_name)
            with name False have "f \<noteq> g" by auto
            with Some False show ?thesis by (simp add: flag_view_def get_set_other)
          qed
        qed
        with Some nv lsan f x show ?thesis
          by (simp add: parse_flag_def token_assignment_def)
      qed
    qed
  qed
qed

lemma flag_view_foldl:
  "flag_view e (foldl (parse_flag e) s ts) k =
     (case map_of (rev (List.map_filter (token_assignment e) ts)) k of
        None \<Rightarrow> flag_view e s k
      | Some x \<Rightarrow> Some x)"
proof (induction ts rule: rev_induct)
  case Nil
  then show ?case by (simp add: map_filter_simps)
next
  case (snoc t ts)
  show ?case
  proof (cases "token_assignment e t")
    case None
    with snoc show ?thesis
      by (simp add: flag_view_parse_flag map_filter_def)
  next
    case (Some a)
    obtain n x where a: "a = (n, x)" by (cases a)
    with Some snoc show ?thesis
      by (simp add: flag_view_parse_flag map_filter_def)
  qed
qed

lemma flag_view_ParseString:
  "flag_view e (ParseString e str s) k =
     (case last_assignment e k str of None \<Rightarrow> flag_view e s k | Some x \<Rightarrow> Some x)"
  by (cases str)
    (simp_all add: ParseString_def last_assignment_def assignments_def flag_view_foldl)

lemma flag_view_finish_flags: "flag_view e (finish_flags P s) k = flag_view e s k"
  by (simp add: finish_flags_def flag_view_def do_call_def Let_def)

lemma flag_view_parse_option_sources:
  "flag_view e (parse_option_sources P e s) k =
     flag_view e (ParseString e (options_source P e) (ParseString e (lsan_default_options e) s)) k"
  by (simp add: parse_option_sources_def Let_def flag_view_def do_call_def)

text \<open>
  C3. Under every flag name, the resolved configuration holds the value of the last
  accepted assignment in the second options string (the platform's channel or the
  environment variable); for a name that string does not assign, the value of the last
  accepted assignment in the default-options string; and for a name neither assigns,
  the value set before any string is parsed.
\<close>

theorem flags_last_writer_wins:
  "flag_view e (InitializeFlags P e s) k =
     (case last_assignment e k (options_source P e) of
        Some x \<Rightarrow> Some x
      | None \<Rightarrow>
          (case last_assignment e k (lsan_default_options e) of
             Some x \<Rightarrow> Some x
           | None \<Rightarrow> flag_view e (set_flag_defaults P e s) k))"
  by (simp add: InitializeFlags_def flag_view_finish_flags flag_view_parse_option_sources
      flag_view_ParseString split: option.splits)

text \<open>
  With defaults \<^verbatim>\<open>help=0\<close> and \<^verbatim>\<open>leak_check_at_exit=1\<close>, the first string
  \<^verbatim>\<open>help=1:leak_check_at_exit=0\<close> and the second string \<^verbatim>\<open>help=0:max_leaks=5\<close>: the
  second string decides \<^verbatim>\<open>help\<close> and \<^verbatim>\<open>max_leaks\<close>, the first one
  \<^verbatim>\<open>leak_check_at_exit\<close>, and \<^verbatim>\<open>exitcode\<close> keeps the value set before parsing.
\<close>

theorem flags_last_writer_wins_witness:
  "flag_view sample_env (InitializeFlags emscripten sample_env globals_at_load) ''help'' =
     Some (Bool_value False) \<and>
   flag_view sample_env (InitializeFlags emscripten sample_env globals_at_load)
     ''leak_check_at_exit'' = Some (Bool_value False) \<and>
   flag_view sample_env (InitializeFlags emscripten sample_env globals_at_load) ''max_leaks'' =
     Some (Str_value (Some ''5'')) \<and>
   flag_view sample_env (InitializeFlags emscripten sample_env globals_at_load) ''exitcode'' =
     Some (Int_value 23)"
proof -
  have a: "last_assignment sample_env ''help'' (options_source emscripten sample_env) =
      Some (Bool_value False)"
    "last_assignment sample_env ''leak_check_at_exit'' (options_source emscripten sample_env) =
      None"
    "last_assignment sample_env ''leak_check_at_exit'' (lsan_default_options sample_env) =
      Some (Bool_value False)"
    "last_assignment sample_env ''max_leaks'' (options_source emscripten sample_env) =
      Some (Str_value (Some ''5''))"
    "last_assignment sample_env ''exitcode'' (options_source emscripten sample_env) = None"
    "last_assignment sample_env ''exitcode'' (lsan_default_options sample_env) = None"
    "flag_view sample_env (set_flag_defaults emscripten sample_env globals_at_load)
       ''exitcode'' = Some (Int_value 23)"
    by code_simp+
  show ?thesis
    using flags_last_writer_wins [of sample_env emscripten globals_at_load "''help''"]
      flags_last_writer_wins [of sample_env emscripten globals_at_load "''leak_check_at_exit''"]
      flags_last_writer_wins [of sample_env emscripten globals_at_load "''max_leaks''"]
      flags_last_writer_wins [of sample_env emscripten globals_at_load "''exitcode''"]
    by (simp add: a)
qed

subsection \<open>The values the tool sets\<close>

text \<open>A token that does not assign the name of a field leaves the field as it is.\<close>

lemma parse_flag_keeps_field:
  assumes "\<And>v. key_value t \<noteq> Some (common_flag_name g, v)"
  shows "get_common_flag g (common_flags (parse_flag e s t)) = get_common_flag g (common_flags s)"
proof (cases "key_value t")
  case None
  then show ?thesis by (simp add: parse_flag_def add_unknown_def)
next
  case (Some nv)
  obtain n v where nv: "nv = (n, v)" by (cases nv)
  with Some assms have ne: "n \<noteq> common_flag_name g" by auto
  show ?thesis
  proof (cases "find_common_flag n")
    case None
    with Some nv show ?thesis by (simp add: parse_flag_def add_unknown_def)
  next
    case f: (Some f)
    then have "common_flag_name f = n" by (rule find_common_flag_name)
    with ne have "f \<noteq> g" by auto
    with Some nv f show ?thesis
      by (simp add: parse_flag_def add_unknown_def get_set_other split: option.splits)
  qed
qed

lemma foldl_parse_flag_keeps_field:
  assumes "common_flag_name g \<notin> fst ` set (List.map_filter key_value ts)"
  shows "get_common_flag g (common_flags (foldl (parse_flag e) s ts)) =
         get_common_flag g (common_flags s)"
  using assms
proof (induction ts arbitrary: s)
  case Nil
  then show ?case by simp
next
  case (Cons t ts)
  have here: "\<And>v. key_value t \<noteq> Some (common_flag_name g, v)"
    using Cons.prems by (force simp: map_filter_simps split: option.splits)
  have rest: "common_flag_name g \<notin> fst ` set (List.map_filter key_value ts)"
    using Cons.prems by (auto simp: map_filter_simps split: option.splits)
  show ?case
    using Cons.IH [OF rest, of "parse_flag e s t"] parse_flag_keeps_field [OF here, of e s]
    by simp
qed

lemma ParseString_keeps_field:
  assumes "common_flag_name g \<notin> set (mentioned_keys str)"
  shows "get_common_flag g (common_flags (ParseString e str s)) =
         get_common_flag g (common_flags s)"
  using assms
  by (cases str) (simp_all add: ParseString_def mentioned_keys_def foldl_parse_flag_keeps_field)

lemma resolved_keeps_field:
  assumes "common_flag_name g \<notin> set (mentioned_keys (lsan_default_options e))"
    "common_flag_name g \<notin> set (mentioned_keys (options_source P e))"
  shows "get_common_flag g (resolved_flags P e) =
         get_common_flag g (common_flags (set_flag_defaults P e globals_at_load))"
proof -
  have "common_flags (InitializeFlags P e globals_at_load) =
        common_flags (ParseString e (options_source P e)
          (ParseString e (lsan_default_options e) (set_flag_defaults P e globals_at_load)))"
    by (simp add: InitializeFlags_def parse_option_sources_def Let_def do_call_def)
  then show ?thesis
    using assms by (simp add: resolved_flags_def ParseString_keeps_field)
qed

lemma find_common_flag_of_name: "find_common_flag (common_flag_name f) = Some f"
  unfolding find_common_flag_def registered_common_flags_def by (cases f) simp_all

lemma flag_view_common:
  "\<not> is_lsan_flag e (common_flag_name f) \<Longrightarrow>
   flag_view e s (common_flag_name f) = Some (get_common_flag f (common_flags s))"
  by (simp add: flag_view_def find_common_flag_of_name)

lemma flag_view_resolved:
  "flag_view e (InitializeFlags P e s) k =
     (case last_assignment e k (options_source P e) of
        Some x \<Rightarrow> Some x
      | None \<Rightarrow>
          (case last_assignment e k (lsan_default_options e) of
             Some x \<Rightarrow> Some x
           | None \<Rightarrow> flag_view e (set_flag_defaults P e s) k))"
  by (simp add: InitializeFlags_def flag_view_finish_flags flag_view_parse_option_sources
      flag_view_ParseString split: option.splits)

lemma resolved_field_last_accepted:
  assumes "\<not> is_lsan_flag e (common_flag_name f)"
  shows "get_common_flag f (resolved_flags P e) =
         last_accepted_or P e (common_flag_name f)
           (get_common_flag f (common_flags (set_flag_defaults P e globals_at_load)))"
proof -
  have "Some (get_common_flag f (resolved_flags P e)) =
        flag_view e (InitializeFlags P e globals_at_load) (common_flag_name f)"
    using assms by (simp add: flag_view_common resolved_flags_def)
  also have "\<dots> = Some (last_accepted_or P e (common_flag_name f)
           (get_common_flag f (common_flags (set_flag_defaults P e globals_at_load))))"
    using assms
    by (simp add: flag_view_resolved flag_view_common last_accepted_or_def split: option.splits)
  finally show ?thesis by simp
qed

text \<open>
  C4, as the code has it. The tool puts depth 30, TLS interception on, leak detection
  on and exit code 23 over the common defaults before any options string is parsed.
  Each of the four is the value of the resolved configuration when neither options
  string assigns its name. They can be replaced: under each of the four names (when the
  name is not also one of the tool's own flags), the resolved value is the last
  accepted assignment of the second options string, else the last accepted assignment
  of the default-options string, else the tool's value. An assignment with a value the
  flag cannot read is not accepted and changes nothing.
\<close>

theorem tool_values_hold_unless_assigned:
  "(''malloc_context_size'' \<notin> option_keys P e \<longrightarrow>
      malloc_context_size (resolved_flags P e) = 30) \<and>
   (''intercept_tls_get_addr'' \<notin> option_keys P e \<longrightarrow>
      intercept_tls_get_addr (resolved_flags P e)) \<and>
   (''detect_leaks'' \<notin> option_keys P e \<longrightarrow> detect_leaks (resolved_flags P e)) \<and>
   (''exitcode'' \<notin> option_keys P e \<longrightarrow> exitcode (resolved_flags P e) = 23) \<and>
   (\<not> is_lsan_flag e ''malloc_context_size'' \<longrightarrow>
      Int_value (malloc_context_size (resolved_flags P e)) =
        last_accepted_or P e ''malloc_context_size'' (Int_value 30)) \<and>
   (\<not> is_lsan_flag e ''intercept_tls_get_addr'' \<longrightarrow>
      Bool_value (intercept_tls_get_addr (resolved_flags P e)) =
        last_accepted_or P e ''intercept_tls_get_addr'' (Bool_value True)) \<and>
   (\<not> is_lsan_flag e ''detect_leaks'' \<longrightarrow>
      Bool_value (detect_leaks (resolved_flags P e)) =
        last_accepted_or P e ''detect_leaks'' (Bool_value True)) \<and>
   (\<not> is_lsan_flag e ''exitcode'' \<longrightarrow>
      Int_value (exitcode (resolved_flags P e)) =
        last_accepted_or P e ''exitcode'' (Int_value 23))"
proof -
  have keep: "(''malloc_context_size'' \<notin> option_keys P e \<longrightarrow>
      malloc_context_size (resolved_flags P e) = 30) \<and>
   (''intercept_tls_get_addr'' \<notin> option_keys P e \<longrightarrow>
      intercept_tls_get_addr (resolved_flags P e)) \<and>
   (''detect_leaks'' \<notin> option_keys P e \<longrightarrow> detect_leaks (resolved_flags P e)) \<and>
   (''exitcode'' \<notin> option_keys P e \<longrightarrow> exitcode (resolved_flags P e) = 23)"
    using resolved_keeps_field [of F_malloc_context_size e P]
      resolved_keeps_field [of F_intercept_tls_get_addr e P]
      resolved_keeps_field [of F_detect_leaks e P]
      resolved_keeps_field [of F_exitcode e P]
    by (simp add: option_keys_def set_flag_defaults_tool_values)
  have over: "(\<not> is_lsan_flag e ''malloc_context_size'' \<longrightarrow>
      Int_value (malloc_context_size (resolved_flags P e)) =
        last_accepted_or P e ''malloc_context_size'' (Int_value 30)) \<and>
   (\<not> is_lsan_flag e ''intercept_tls_get_addr'' \<longrightarrow>
      Bool_value (intercept_tls_get_addr (resolved_flags P e)) =
        last_accepted_or P e ''intercept_tls_get_addr'' (Bool_value True)) \<and>
   (\<not> is_lsan_flag e ''detect_leaks'' \<longrightarrow>
      Bool_value (detect_leaks (resolved_flags P e)) =
        last_accepted_or P e ''detect_leaks'' (Bool_value True)) \<and>
   (\<not> is_lsan_flag e ''exitcode'' \<longrightarrow>
      Int_value (exitcode (resolved_flags P e)) =
        last_accepted_or P e ''exitcode'' (Int_value 23))"
    using resolved_field_last_accepted [of e F_malloc_context_size P]
      resolved_field_last_accepted [of e F_intercept_tls_get_addr P]
      resolved_field_last_accepted [of e F_detect_leaks P]
      resolved_field_last_accepted [of e F_exitcode P]
    by (simp add: set_flag_defaults_tool_values)
  from keep over show ?thesis by simp
qed

theorem tool_values_hold_unless_assigned_witness:
  "malloc_context_size (resolved_flags emscripten sample_env) = 30 \<and>
   intercept_tls_get_addr (resolved_flags emscripten sample_env) \<and>
   detect_leaks (resolved_flags emscripten sample_env) \<and>
   exitcode (resolved_flags emscripten sample_env) = 23 \<and>
   exitcode (resolved_flags emscripten
     (sample_env\<lparr>Module_LSAN_OPTIONS := Some ''exitcode=7:detect_leaks=0:exitcode=abc''\<rparr>)) = 7 \<and>
   detect_leaks (resolved_flags emscripten
     (sample_env\<lparr>Module_LSAN_OPTIONS := Some ''exitcode=7:detect_leaks=0:exitcode=abc''\<rparr>)) = False \<and>
   malloc_context_size (resolved_flags emscripten
     (sample_env\<lparr>lsan_default_options := Some ''malloc_context_size=2''\<rparr>)) = 2 \<and>
   exitcode (resolved_flags emscripten
     (sample_env\<lparr>Module_LSAN_OPTIONS := Some ''exitcode=abc''\<rparr>)) = 23"
proof -
  let ?e1 = "sample_env\<lparr>Module_LSAN_OPTIONS := Some ''exitcode=7:detect_leaks=0:exitcode=abc''\<rparr>"
  let ?e2 = "sample_env\<lparr>lsan_default_options := Some ''malloc_context_size=2''\<rparr>"
  let ?e3 = "sample_env\<lparr>Module_LSAN_OPTIONS := Some ''exitcode=abc''\<rparr>"
  have keys: "option_keys emscripten sample_env = {''help'', ''leak_check_at_exit'', ''max_leaks''}"
    by (simp add: option_keys_def mentioned_keys_def sample_env_def emscripten_def
        options_source_def split_tokens_def is_separator_def key_value_def map_filter_simps)
      auto
  have reg: "\<not> is_lsan_flag ?e1 ''exitcode''" "\<not> is_lsan_flag ?e1 ''detect_leaks''"
    "\<not> is_lsan_flag ?e2 ''malloc_context_size''" "\<not> is_lsan_flag ?e3 ''exitcode''"
    by (simp_all add: is_lsan_flag_def sample_env_def)
  have la: "last_accepted_or emscripten ?e1 ''exitcode'' (Int_value 23) = Int_value 7"
    "last_accepted_or emscripten ?e1 ''detect_leaks'' (Bool_value True) = Bool_value False"
    "last_accepted_or emscripten ?e2 ''malloc_context_size'' (Int_value 30) = Int_value 2"
    "last_accepted_or emscripten ?e3 ''exitcode'' (Int_value 23) = Int_value 23"
    by code_simp+
  show ?thesis
    using tool_values_hold_unless_assigned [of emscripten sample_env]
      tool_values_hold_unless_assigned [of emscripten ?e1]
      tool_values_hold_unless_assigned [of emscripten ?e2]
      tool_values_hold_unless_assigned [of emscripten ?e3]
    by (simp add: keys reg la)
qed

text \<open>
  C4 as stated fails: the options string
  \<^verbatim>\<open>detect_leaks=0:exitcode=0:malloc_context_size=5:intercept_tls_get_addr=0\<close> on the
  platform's channel changes all four values.
\<close>

theorem tool_values_counterexample:
  "malloc_context_size (resolved_flags emscripten
      (sample_env\<lparr>Module_LSAN_OPTIONS :=
         Some ''detect_leaks=0:exitcode=0:malloc_context_size=5:intercept_tls_get_addr=0''\<rparr>)) = 5 \<and>
   intercept_tls_get_addr (resolved_flags emscripten
      (sample_env\<lparr>Module_LSAN_OPTIONS :=
         Some ''detect_leaks=0:exitcode=0:malloc_context_size=5:intercept_tls_get_addr=0''\<rparr>)) = False \<and>
   detect_leaks (resolved_flags emscripten
      (sample_env\<lparr>Module_LSAN_OPTIONS :=
         Some ''detect_leaks=0:exitcode=0:malloc_context_size=5:intercept_tls_get_addr=0''\<rparr>)) = False \<and>
   exitcode (resolved_flags emscripten
      (sample_env\<lparr>Module_LSAN_OPTIONS :=
         Some ''detect_leaks=0:exitcode=0:malloc_context_size=5:intercept_tls_get_addr=0''\<rparr>)) = 0"
  by code_simp

end
